theory Spec2Isabelle
  imports Main "HOL-Library.Multiset" "HOL-Library.Sublist"
begin

section \<open>Python values used by the conversation domain\<close>

text \<open>
  A Python \<open>str\<close> is a sequence of Unicode code points, a \<open>UUID\<close> is an opaque number and a
  naive \<open>datetime\<close> is a count of microseconds, totally ordered.
\<close>

type_synonym codepoint = nat
type_synonym str = "codepoint list"
type_synonym uuid = nat
type_synonym datetime = int

text \<open>
  \<open>str.isspace\<close> on one code point: the characters that \<open>str.strip()\<close> removes when it is
  called without an argument (U+0009..U+000D, U+001C..U+0020, U+0085, U+00A0, U+1680,
  U+2000..U+200A, U+2028, U+2029, U+202F, U+205F, U+3000).
\<close>

definition isspace :: "codepoint \<Rightarrow> bool" where
  "isspace c =
     ((9 \<le> c \<and> c \<le> 13) \<or> (28 \<le> c \<and> c \<le> 32) \<or> c = 133 \<or> c = 160 \<or> c = 5760 \<or>
      (8192 \<le> c \<and> c \<le> 8202) \<or> c = 8232 \<or> c = 8233 \<or> c = 8239 \<or> c = 8287 \<or> c = 12288)"

text \<open>\<open>s.strip()\<close>: leading whitespace is dropped, then trailing whitespace.\<close>

definition strip :: "str \<Rightarrow> str" where
  "strip s = rev (dropWhile isspace (rev (dropWhile isspace s)))"

text \<open>
  \<open>xs[:limit]\<close>: a negative \<open>limit\<close> counts from the end of the list, and a stop before the
  start of the list is clamped to it.
\<close>

definition slice_to :: "'a list \<Rightarrow> int \<Rightarrow> 'a list" where
  "slice_to xs limit =
     (if 0 \<le> limit then take (nat limit) xs
      else take (nat (int (length xs) + limit)) xs)"

text \<open>
  \<open>sorted(xs, key=key, reverse=reverse)\<close>: a stable sort of a copy of \<open>xs\<close>. For
  \<open>reverse=True\<close> the copy is reversed, sorted stably in ascending order and reversed
  again, which keeps elements with equal keys in their original order.
\<close>

definition sorted_py :: "'a list \<Rightarrow> ('a \<Rightarrow> 'k::linorder) \<Rightarrow> bool \<Rightarrow> 'a list" where
  "sorted_py xs key reverse =
     (if reverse then rev (sort_key key (rev xs)) else sort_key key xs)"

section \<open>Exceptions\<close>

text \<open>
  \<open>ValueError\<close> is Python's builtin; the other constructors are the classes of
  \<open>domain/exceptions.py\<close>, all of them subclasses of \<open>DomainException\<close>.
\<close>

datatype exn =
    ValueError string
  | DomainException string
  | ValidationError string
  | EntityNotFoundError string
  | PermissionError string
  | BusinessRuleViolationError string
  | RepositoryError string
  | EventPublishingError string

text \<open>\<open>isinstance(e, ValidationError)\<close> and \<open>isinstance(e, DomainException)\<close>.\<close>

fun is_ValidationError :: "exn \<Rightarrow> bool" where
  "is_ValidationError (ValidationError _) = True"
| "is_ValidationError _ = False"

fun is_DomainException :: "exn \<Rightarrow> bool" where
  "is_DomainException (ValueError _) = False"
| "is_DomainException _ = True"

section \<open>Message\<close>

datatype MessageType = USER | AI | SYSTEM

record message =
  content :: str
  sender_id :: uuid
  message_type :: MessageType
  conversation_id :: uuid
  id_message :: uuid
  timestamp :: datetime
  metadata :: "(str \<times> str) list"

text \<open>
  The generated \<open>__init__\<close> of the dataclass, called with the four required arguments:
  it stores them and fills \<open>id\<close>, \<open>timestamp\<close> and \<open>metadata\<close> from their default factories.
  \<open>new_id\<close> is what \<open>uuid4()\<close> returns and \<open>now\<close> what \<open>datetime.utcnow()\<close> returns.
  There is no \<open>__post_init__\<close>: no argument is checked and nothing is raised.
\<close>

definition Message_init ::
  "str \<Rightarrow> uuid \<Rightarrow> MessageType \<Rightarrow> uuid \<Rightarrow> uuid \<Rightarrow> datetime \<Rightarrow> message" where
  "Message_init content' sender_id' message_type' conversation_id' new_id now =
     \<lparr>content = content', sender_id = sender_id', message_type = message_type',
      conversation_id = conversation_id', id_message = new_id, timestamp = now,
      metadata = []\<rparr>"

text \<open>
  \<open>Message.update_content\<close>: the outcome of the call (the exception raised, or \<open>None\<close>
  returned) and the message object after it.
\<close>

definition update_content :: "message \<Rightarrow> str \<Rightarrow> (exn + unit) \<times> message" where
  "update_content self new_content =
     (if new_content = [] \<or> strip new_content = []
      then (Inl (ValueError ''Message content cannot be empty''), self)
      else (Inr (), self\<lparr>content := new_content\<rparr>))"

section \<open>Conversation\<close>

record conversation =
  title :: str
  created_by :: uuid
  id_conversation :: uuid
  created_at :: datetime
  updated_at :: datetime
  is_archived :: bool
  messages :: "message list"

text \<open>
  The generated \<open>__init__\<close>, called with \<open>title\<close> and \<open>created_by\<close> only. The default
  factories run in field order: \<open>uuid4()\<close> gives \<open>new_id\<close>, a first call of
  \<open>datetime.utcnow()\<close> gives \<open>now_created\<close> and a second call gives \<open>now_updated\<close>.
\<close>

definition Conversation_init ::
  "str \<Rightarrow> uuid \<Rightarrow> uuid \<Rightarrow> datetime \<Rightarrow> datetime \<Rightarrow> conversation" where
  "Conversation_init title' created_by' new_id now_created now_updated =
     \<lparr>title = title', created_by = created_by', id_conversation = new_id,
      created_at = now_created, updated_at = now_updated, is_archived = False,
      messages = []\<rparr>"

text \<open>
  The methods take the object, their arguments and, where the body calls
  \<open>datetime.utcnow()\<close>, the value \<open>now\<close> that this call returns; they give back the object
  after the call.
\<close>

definition add_message :: "conversation \<Rightarrow> message \<Rightarrow> datetime \<Rightarrow> conversation" where
  "add_message self m now = self\<lparr>messages := messages self @ [m], updated_at := now\<rparr>"

definition update_title :: "conversation \<Rightarrow> str \<Rightarrow> datetime \<Rightarrow> (exn + unit) \<times> conversation" where
  "update_title self new_title now =
     (if new_title = [] \<or> strip new_title = []
      then (Inl (ValueError ''Conversation title cannot be empty''), self)
      else (Inr (), self\<lparr>title := new_title, updated_at := now\<rparr>))"

definition archive :: "conversation \<Rightarrow> datetime \<Rightarrow> conversation" where
  "archive self now = self\<lparr>is_archived := True, updated_at := now\<rparr>"

definition unarchive :: "conversation \<Rightarrow> datetime \<Rightarrow> conversation" where
  "unarchive self now = self\<lparr>is_archived := False, updated_at := now\<rparr>"

text \<open>\<open>get_latest_messages\<close> returns a new list and leaves the object as it is.\<close>

definition get_latest_messages :: "conversation \<Rightarrow> int \<Rightarrow> message list \<times> conversation" where
  "get_latest_messages self limit =
     (slice_to (sorted_py (messages self) timestamp True) limit, self)"

section \<open>Notions of the specification\<close>

text \<open>A text is empty or whitespace-only when every one of its characters is whitespace.\<close>

definition empty_or_whitespace :: "str \<Rightarrow> bool" where
  "empty_or_whitespace s = list_all isspace s"

text \<open>Every message of the conversation carries the conversation's id.\<close>

definition messages_carry_id :: "conversation \<Rightarrow> bool" where
  "messages_carry_id c = list_all (\<lambda>m. conversation_id m = id_conversation c) (messages c)"

text \<open>A list of messages is in descending order of timestamp.\<close>

definition descending :: "message list \<Rightarrow> bool" where
  "descending ms = sorted_wrt (\<lambda>a b. timestamp b \<le> timestamp a) ms"

text \<open>
  A run of \<open>add_message\<close> calls, each with its message and the clock reading of the call,
  and the values \<open>updated_at\<close> takes after each call of the run.
\<close>

fun add_message_calls :: "conversation \<Rightarrow> (message \<times> datetime) list \<Rightarrow> conversation" where
  "add_message_calls self [] = self"
| "add_message_calls self ((m, now) # calls) = add_message_calls (add_message self m now) calls"

fun updated_at_after_calls :: "conversation \<Rightarrow> (message \<times> datetime) list \<Rightarrow> datetime list" where
  "updated_at_after_calls self [] = []"
| "updated_at_after_calls self ((m, now) # calls) =
     updated_at (add_message self m now) # updated_at_after_calls (add_message self m now) calls"

section \<open>Whitespace stripping\<close>

lemma strip_empty_iff: "strip s = [] \<longleftrightarrow> list_all isspace s"
proof -
  have "strip s = [] \<longleftrightarrow> dropWhile isspace (rev (dropWhile isspace s)) = []"
    by (simp add: strip_def)
  also have "\<dots> \<longleftrightarrow> (\<forall>c \<in> set (dropWhile isspace s). isspace c)"
    by simp
  also have "\<dots> \<longleftrightarrow> (\<forall>c \<in> set s. isspace c)"
  proof
    assume h: "\<forall>c \<in> set (dropWhile isspace s). isspace c"
    show "\<forall>c \<in> set s. isspace c"
    proof (cases "dropWhile isspace s")
      case Nil
      then show ?thesis by simp
    next
      case (Cons x xs)
      then have "\<not> isspace x" by (metis hd_dropWhile list.sel(1) list.distinct(1))
      moreover have "isspace x" using h Cons by simp
      ultimately show ?thesis by simp
    qed
  next
    assume "\<forall>c \<in> set s. isspace c"
    then show "\<forall>c \<in> set (dropWhile isspace s). isspace c"
      by (meson set_dropWhileD)
  qed
  finally show ?thesis by (simp add: list_all_iff)
qed

lemma guard_iff: "(s = [] \<or> strip s = []) \<longleftrightarrow> empty_or_whitespace s"
  by (auto simp: strip_empty_iff empty_or_whitespace_def)

section \<open>Message.update_content\<close>

text \<open>
  C8. For every message and every new content that is not empty or whitespace-only,
  \<open>update_content\<close> returns normally, sets \<open>content\<close> to the new content and leaves
  \<open>timestamp\<close>, \<open>id\<close>, \<open>sender_id\<close>, \<open>message_type\<close>, \<open>conversation_id\<close> and \<open>metadata\<close>
  as they were; for an empty or whitespace-only content it raises and leaves every
  field of the message as it was.
\<close>

theorem update_content_frame:
  "(\<not> empty_or_whitespace new_content \<longrightarrow>
      fst (update_content self new_content) = Inr () \<and>
      content (snd (update_content self new_content)) = new_content \<and>
      timestamp (snd (update_content self new_content)) = timestamp self \<and>
      id_message (snd (update_content self new_content)) = id_message self \<and>
      sender_id (snd (update_content self new_content)) = sender_id self \<and>
      message_type (snd (update_content self new_content)) = message_type self \<and>
      conversation_id (snd (update_content self new_content)) = conversation_id self \<and>
      metadata (snd (update_content self new_content)) = metadata self) \<and>
   (empty_or_whitespace new_content \<longrightarrow>
      (\<exists>e. fst (update_content self new_content) = Inl e) \<and>
      snd (update_content self new_content) = self)"
  using guard_iff [of new_content] by (simp add: update_content_def)

theorem update_content_frame_witness:
  "\<not> empty_or_whitespace [72, 105] \<and> empty_or_whitespace [32, 9, 160] \<and>
   update_content (Message_init [79, 108, 100] 1 USER 2 3 1000) [72, 105] =
     (Inr (), \<lparr>content = [72, 105], sender_id = 1, message_type = USER, conversation_id = 2,
               id_message = 3, timestamp = 1000, metadata = []\<rparr>) \<and>
   snd (update_content (Message_init [79, 108, 100] 1 USER 2 3 1000) [32, 9, 160]) =
     Message_init [79, 108, 100] 1 USER 2 3 1000"
  using update_content_frame [of "[72, 105]" "Message_init [79, 108, 100] 1 USER 2 3 1000"]
        update_content_frame [of "[32, 9, 160]" "Message_init [79, 108, 100] 1 USER 2 3 1000"]
  by (simp add: empty_or_whitespace_def isspace_def update_content_def strip_def Message_init_def)

text \<open>
  C1 (as amended). \<open>update_content\<close> raises if and only if the new content is empty or
  whitespace-only; what it raises is the builtin \<open>ValueError\<close>, which is neither a
  \<open>ValidationError\<close> nor any other \<open>DomainException\<close>, and the message is then as it was.
  When the call returns, the content is the new content and is not empty or
  whitespace-only, whatever the content was before. So a content that is not empty or
  whitespace-only stays so across every call of \<open>update_content\<close>, whether the call
  raises or returns.
\<close>

theorem update_content_keeps_content_valid:
  "((\<exists>e. fst (update_content self new_content) = Inl e) \<longleftrightarrow>
      empty_or_whitespace new_content) \<and>
   (empty_or_whitespace new_content \<longrightarrow>
      update_content self new_content =
        (Inl (ValueError ''Message content cannot be empty''), self)) \<and>
   (\<forall>e. fst (update_content self new_content) = Inl e \<longrightarrow>
      \<not> is_ValidationError e \<and> \<not> is_DomainException e) \<and>
   (fst (update_content self new_content) = Inr () \<longrightarrow>
      content (snd (update_content self new_content)) = new_content \<and>
      \<not> empty_or_whitespace (content (snd (update_content self new_content)))) \<and>
   (\<not> empty_or_whitespace (content self) \<longrightarrow>
      \<not> empty_or_whitespace (content (snd (update_content self new_content))))"
  using guard_iff [of new_content] by (simp add: update_content_def)

theorem update_content_keeps_content_valid_witness:
  "empty_or_whitespace [32, 32, 32] \<and>
   \<not> empty_or_whitespace (content (Message_init [72, 105] 1 USER 2 3 1000)) \<and>
   update_content (Message_init [72, 105] 1 USER 2 3 1000) [32, 32, 32] =
     (Inl (ValueError ''Message content cannot be empty''),
      Message_init [72, 105] 1 USER 2 3 1000) \<and>
   \<not> empty_or_whitespace
       (content (snd (update_content (Message_init [72, 105] 1 USER 2 3 1000) [32, 32, 32]))) \<and>
   fst (update_content (Message_init [72, 105] 1 USER 2 3 1000) [79, 75]) = Inr () \<and>
   content (snd (update_content (Message_init [72, 105] 1 USER 2 3 1000) [79, 75])) = [79, 75] \<and>
   \<not> empty_or_whitespace
       (content (snd (update_content (Message_init [72, 105] 1 USER 2 3 1000) [79, 75])))"
proof -
  have b: "empty_or_whitespace [32, 32, 32]"
    by (simp add: empty_or_whitespace_def isspace_def)
  have v: "\<not> empty_or_whitespace (content (Message_init [72, 105] 1 USER 2 3 1000))"
    by (simp add: empty_or_whitespace_def isspace_def Message_init_def)
  have r: "fst (update_content (Message_init [72, 105] 1 USER 2 3 1000) [79, 75]) = Inr ()"
    by (simp add: update_content_def strip_def isspace_def)
  from update_content_keeps_content_valid
         [of "Message_init [72, 105] 1 USER 2 3 1000" "[32, 32, 32]"] b v
  have 1: "update_content (Message_init [72, 105] 1 USER 2 3 1000) [32, 32, 32] =
             (Inl (ValueError ''Message content cannot be empty''),
              Message_init [72, 105] 1 USER 2 3 1000) \<and>
           \<not> empty_or_whitespace
              (content (snd (update_content (Message_init [72, 105] 1 USER 2 3 1000) [32, 32, 32])))"
    by blast
  from update_content_keeps_content_valid
         [of "Message_init [72, 105] 1 USER 2 3 1000" "[79, 75]"] r
  have 2: "content (snd (update_content (Message_init [72, 105] 1 USER 2 3 1000) [79, 75])) =
             [79, 75] \<and>
           \<not> empty_or_whitespace
              (content (snd (update_content (Message_init [72, 105] 1 USER 2 3 1000) [79, 75])))"
    by blast
  from b v r 1 2 show ?thesis by blast
qed

text \<open>
  C1 fails as stated: constructing a message with the empty content, or with three
  spaces, raises nothing and gives a message whose content is empty or whitespace-only,
  although \<open>update_content\<close> refuses the same content; and what \<open>update_content\<close> raises
  for it is not a \<open>ValidationError\<close>.
\<close>

theorem Message_init_accepts_blank_content:
  "empty_or_whitespace (content (Message_init [] 1 USER 2 3 1000)) \<and>
   empty_or_whitespace (content (Message_init [32, 32, 32] 1 USER 2 3 1000)) \<and>
   fst (update_content (Message_init [72, 105] 1 USER 2 3 1000) []) =
     Inl (ValueError ''Message content cannot be empty'') \<and>
   \<not> is_ValidationError (ValueError ''Message content cannot be empty'')"
  by (simp add: empty_or_whitespace_def isspace_def Message_init_def update_content_def)

section \<open>Conversation.update_title\<close>

text \<open>
  C3 (as amended). For every conversation and every text \<open>t\<close>, \<open>update_title(t)\<close> raises
  if and only if \<open>t\<close> is empty or whitespace-only, and what it raises is the builtin
  \<open>ValueError\<close>; when it raises, the title and every other field of the conversation are
  as before; when it returns, the title is \<open>t\<close>, \<open>updated_at\<close> is the clock reading of the
  call and the other fields are as before.
\<close>

theorem update_title_raises_iff:
  "((\<exists>e. fst (update_title self t now) = Inl e) \<longleftrightarrow> empty_or_whitespace t) \<and>
   (empty_or_whitespace t \<longrightarrow>
      update_title self t now =
        (Inl (ValueError ''Conversation title cannot be empty''), self)) \<and>
   (\<not> empty_or_whitespace t \<longrightarrow>
      update_title self t now = (Inr (), self\<lparr>title := t, updated_at := now\<rparr>))"
  using guard_iff [of t] by (simp add: update_title_def)

theorem update_title_raises_iff_witness:
  "empty_or_whitespace [32, 32, 32] \<and> \<not> empty_or_whitespace [88] \<and>
   update_title (Conversation_init [84, 114, 105, 112] 1 7 100 100) [32, 32, 32] 200 =
     (Inl (ValueError ''Conversation title cannot be empty''),
      Conversation_init [84, 114, 105, 112] 1 7 100 100) \<and>
   update_title (Conversation_init [84, 114, 105, 112] 1 7 100 100) [88] 200 =
     (Inr (), \<lparr>title = [88], created_by = 1, id_conversation = 7, created_at = 100,
               updated_at = 200, is_archived = False, messages = []\<rparr>)"
  using update_title_raises_iff
          [of "Conversation_init [84, 114, 105, 112] 1 7 100 100" "[32, 32, 32]" 200]
        update_title_raises_iff
          [of "Conversation_init [84, 114, 105, 112] 1 7 100 100" "[88]" 200]
  by (simp add: empty_or_whitespace_def isspace_def Conversation_init_def)

text \<open>
  C3 fails as stated: on the empty title the call raises \<open>ValueError\<close>, which is neither
  a \<open>ValidationError\<close> nor any other \<open>DomainException\<close>.
\<close>

theorem update_title_raises_ValueError:
  "fst (update_title (Conversation_init [84, 114, 105, 112] 1 7 100 100) [] 200) =
     Inl (ValueError ''Conversation title cannot be empty'') \<and>
   \<not> is_ValidationError (ValueError ''Conversation title cannot be empty'') \<and>
   \<not> is_DomainException (ValueError ''Conversation title cannot be empty'')"
  by (simp add: update_title_def)

section \<open>Conversation construction\<close>

text \<open>
  C4. A conversation created from a title and a creator is not archived and has no
  messages, but its two timestamps come from two separate readings of the clock:
  \<open>created_at\<close> is the first and \<open>updated_at\<close> the second. When the clock advances between
  the two readings (here from 100 to 101 microseconds) the timestamps differ.
\<close>

theorem Conversation_init_two_clock_readings:
  "created_at (Conversation_init [84, 114, 105, 112] 1 7 100 101) = 100 \<and>
   updated_at (Conversation_init [84, 114, 105, 112] 1 7 100 101) = 101 \<and>
   created_at (Conversation_init [84, 114, 105, 112] 1 7 100 101) \<noteq>
     updated_at (Conversation_init [84, 114, 105, 112] 1 7 100 101) \<and>
   is_archived (Conversation_init [84, 114, 105, 112] 1 7 100 101) = False \<and>
   messages (Conversation_init [84, 114, 105, 112] 1 7 100 101) = []"
  by (simp add: Conversation_init_def)

section \<open>Messages and the conversation's id\<close>

lemma messages_carry_id_add_message:
  "messages_carry_id (add_message self m now) \<longleftrightarrow>
     messages_carry_id self \<and> conversation_id m = id_conversation self"
  by (simp add: messages_carry_id_def add_message_def)

text \<open>
  C2 (as amended). A newly created conversation has the property that every message
  carries its id; \<open>update_title\<close>, \<open>archive\<close>, \<open>unarchive\<close> and \<open>get_latest_messages\<close>
  preserve the property, and \<open>add_message\<close> preserves it exactly when the message it is
  given carries the conversation's id, which \<open>add_message\<close> does not check.
\<close>

theorem messages_carry_id_preserved:
  "messages_carry_id (Conversation_init t u i now1 now2) \<and>
   (messages_carry_id self \<longrightarrow>
      messages_carry_id (snd (update_title self new_title now)) \<and>
      messages_carry_id (archive self now) \<and>
      messages_carry_id (unarchive self now) \<and>
      messages_carry_id (snd (get_latest_messages self limit)) \<and>
      (messages_carry_id (add_message self m now) \<longleftrightarrow>
         conversation_id m = id_conversation self))"
  by (simp add: messages_carry_id_add_message)
     (simp add: messages_carry_id_def Conversation_init_def update_title_def archive_def
        unarchive_def get_latest_messages_def)

theorem messages_carry_id_preserved_witness:
  "messages_carry_id (Conversation_init [84] 1 7 100 100) \<and>
   messages_carry_id
     (add_message (Conversation_init [84] 1 7 100 100) (Message_init [72, 105] 1 USER 7 3 150) 200) \<and>
   messages_carry_id
     (archive (add_message (Conversation_init [84] 1 7 100 100)
        (Message_init [72, 105] 1 USER 7 3 150) 200) 300)"
  using messages_carry_id_preserved
          [of "[84]" 1 7 100 100 "Conversation_init [84] 1 7 100 100" "[88]" 200 0
              "Message_init [72, 105] 1 USER 7 3 150"]
        messages_carry_id_preserved
          [of "[84]" 1 7 100 100
              "add_message (Conversation_init [84] 1 7 100 100)
                 (Message_init [72, 105] 1 USER 7 3 150) 200" "[88]" 300 0
              "Message_init [72, 105] 1 USER 7 3 150"]
  by (simp add: Conversation_init_def Message_init_def)

text \<open>
  C2 fails as stated: a conversation with id 7 accepts a message that carries the
  conversation id 8, and after the call not every message carries the id 7.
\<close>

theorem add_message_accepts_foreign_message:
  "messages_carry_id (Conversation_init [84] 1 7 100 100) \<and>
   \<not> messages_carry_id
       (add_message (Conversation_init [84] 1 7 100 100)
          (Message_init [72, 105] 1 USER 8 3 150) 200)"
  by (simp add: messages_carry_id_def add_message_def Conversation_init_def Message_init_def)

section \<open>Conversation.add_message\<close>

lemma messages_add_message_calls:
  "messages (add_message_calls self calls) = messages self @ map fst calls"
  by (induction self calls rule: add_message_calls.induct) (simp_all add: add_message_def)

lemma updated_at_after_calls_readings:
  "updated_at_after_calls self calls = map snd calls"
  by (induction self calls rule: updated_at_after_calls.induct) (simp_all add: add_message_def)

lemma updated_at_add_message_calls:
  "updated_at (add_message_calls self calls) = last (updated_at self # map snd calls)"
  by (induction self calls rule: add_message_calls.induct) (simp_all add: add_message_def)

text \<open>
  C5 (as amended). \<open>add_message\<close> is append-only: after a run of N calls the messages are
  the earlier messages followed by the N added messages in call order, so starting from
  no messages there are exactly N; each call sets \<open>updated_at\<close> to the clock reading of
  the call, so the values of \<open>updated_at\<close> never decrease across the calls provided the
  clock readings do not decrease.
\<close>

theorem add_message_append_only:
  "messages (add_message_calls self calls) = messages self @ map fst calls \<and>
   (messages self = [] \<longrightarrow> length (messages (add_message_calls self calls)) = length calls) \<and>
   updated_at (add_message self m now) = now \<and>
   updated_at_after_calls self calls = map snd calls \<and>
   (sorted (updated_at self # map snd calls) \<longrightarrow>
      sorted (updated_at self # updated_at_after_calls self calls))"
  by (simp add: messages_add_message_calls updated_at_after_calls_readings add_message_def)

theorem add_message_append_only_witness:
  "messages (Conversation_init [84] 1 7 100 100) = [] \<and>
   sorted (updated_at (Conversation_init [84] 1 7 100 100) # map snd
     [(Message_init [72, 105] 1 USER 7 3 150, 200), (Message_init [79, 75] 2 AI 7 4 250, 300)]) \<and>
   messages (add_message_calls (Conversation_init [84] 1 7 100 100)
     [(Message_init [72, 105] 1 USER 7 3 150, 200), (Message_init [79, 75] 2 AI 7 4 250, 300)]) =
     [Message_init [72, 105] 1 USER 7 3 150, Message_init [79, 75] 2 AI 7 4 250] \<and>
   length (messages (add_message_calls (Conversation_init [84] 1 7 100 100)
     [(Message_init [72, 105] 1 USER 7 3 150, 200), (Message_init [79, 75] 2 AI 7 4 250, 300)])) = 2 \<and>
   updated_at_after_calls (Conversation_init [84] 1 7 100 100)
     [(Message_init [72, 105] 1 USER 7 3 150, 200), (Message_init [79, 75] 2 AI 7 4 250, 300)] =
     [200, 300]"
  using add_message_append_only
          [of "Conversation_init [84] 1 7 100 100"
              "[(Message_init [72, 105] 1 USER 7 3 150, 200),
                (Message_init [79, 75] 2 AI 7 4 250, 300)]"]
  by (simp add: Conversation_init_def)

text \<open>
  C5 fails as stated: when the clock reads 200 at the first call and 150 at the second,
  \<open>updated_at\<close> decreases from 200 to 150.
\<close>

theorem add_message_updated_at_decreases:
  "updated_at_after_calls (Conversation_init [84] 1 7 100 100)
     [(Message_init [72, 105] 1 USER 7 3 150, 200), (Message_init [79, 75] 2 AI 7 4 250, 150)] =
     [200, 150] \<and>
   \<not> sorted (updated_at_after_calls (Conversation_init [84] 1 7 100 100)
     [(Message_init [72, 105] 1 USER 7 3 150, 200), (Message_init [79, 75] 2 AI 7 4 250, 150)])"
  by (simp add: add_message_def)

section \<open>Conversation.archive and Conversation.unarchive\<close>

text \<open>
  C7 (as amended). \<open>archive\<close> sets \<open>is_archived\<close> to true and \<open>unarchive\<close> sets it to false;
  each call sets \<open>updated_at\<close> to the clock reading of the call whether or not
  \<open>is_archived\<close> changes, so two calls of \<open>archive\<close> set it twice; after \<open>archive\<close> and then
  \<open>unarchive\<close> the conversation is not archived and \<open>updated_at\<close> is the second reading,
  which is not before \<open>updated_at\<close> after the first call provided the clock did not go
  back between the two calls.
\<close>

theorem archive_unarchive_touch:
  "is_archived (archive self now1) = True \<and>
   is_archived (unarchive self now1) = False \<and>
   updated_at (archive self now1) = now1 \<and>
   updated_at (unarchive self now1) = now1 \<and>
   updated_at (archive (archive self now1) now2) = now2 \<and>
   is_archived (archive (archive self now1) now2) = True \<and>
   is_archived (unarchive (archive self now1) now2) = False \<and>
   updated_at (unarchive (archive self now1) now2) = now2 \<and>
   (now1 \<le> now2 \<longrightarrow>
      updated_at (archive self now1) \<le> updated_at (unarchive (archive self now1) now2))"
  by (simp add: archive_def unarchive_def)

theorem archive_unarchive_touch_witness:
  "(200::int) \<le> 300 \<and>
   is_archived (archive (Conversation_init [84] 1 7 100 100) 200) \<and>
   \<not> is_archived (unarchive (archive (Conversation_init [84] 1 7 100 100) 200) 300) \<and>
   updated_at (archive (Conversation_init [84] 1 7 100 100) 200) \<le>
     updated_at (unarchive (archive (Conversation_init [84] 1 7 100 100) 200) 300)"
  using archive_unarchive_touch [of "Conversation_init [84] 1 7 100 100" 200 300]
  by simp

text \<open>
  C7 fails as stated: when the clock reads 200 at \<open>archive\<close> and 150 at \<open>unarchive\<close>,
  \<open>updated_at\<close> after the second call is before \<open>updated_at\<close> after the first.
\<close>

theorem unarchive_updated_at_decreases:
  "updated_at (unarchive (archive (Conversation_init [84] 1 7 100 100) 200) 150) <
     updated_at (archive (Conversation_init [84] 1 7 100 100) 200)"
  by (simp add: archive_def unarchive_def)

section \<open>Conversation.get_latest_messages\<close>

text \<open>
  The sort gives a list in descending order of timestamp that holds the same messages and
  keeps messages with equal keys in their order; the slice is a prefix of that list.
\<close>

lemma descending_sorted_py: "descending (sorted_py ms timestamp True)"
proof -
  have "sorted (map timestamp (sort_key timestamp (rev ms)))"
    by (rule sorted_sort_key)
  then have "sorted_wrt (\<lambda>a b. timestamp a \<le> timestamp b) (sort_key timestamp (rev ms))"
    by (simp only: sorted_map)
  then show ?thesis
    by (simp add: descending_def sorted_py_def sorted_wrt_rev)
qed

lemma mset_sorted_py: "mset (sorted_py ms key r) = mset ms"
  by (simp add: sorted_py_def)

lemma filter_sorted_py:
  "filter (\<lambda>m. key m = k) (sorted_py ms key r) = filter (\<lambda>m. key m = k) ms"
proof (cases r)
  case True
  have "filter (\<lambda>m. key m = k) (rev (sort_key key (rev ms))) =
        rev (filter (\<lambda>m. key m = k) (sort_key key (rev ms)))"
    by (simp only: rev_filter)
  also have "\<dots> = rev (filter (\<lambda>m. key m = k) (rev ms))"
    by (simp only: sort_key_stable)
  also have "\<dots> = filter (\<lambda>m. key m = k) ms"
    by (simp only: rev_filter rev_rev_ident)
  finally show ?thesis using True by (simp add: sorted_py_def)
next
  case False
  then show ?thesis by (simp add: sorted_py_def sort_key_stable)
qed

lemma slice_to_take: "\<exists>n. slice_to xs limit = take n xs"
  by (auto simp: slice_to_def)

lemma descending_take: "descending ms \<Longrightarrow> descending (take n ms)"
  by (simp add: descending_def)

lemma prefix_filter_take: "prefix (filter P (take n xs)) (filter P xs)"
proof -
  have "filter P xs = filter P (take n xs @ drop n xs)"
    by simp
  then have "filter P xs = filter P (take n xs) @ filter P (drop n xs)"
    by (simp only: filter_append)
  then show ?thesis by (rule prefixI)
qed

lemma mset_take_subset: "mset (take n xs) \<subseteq># mset xs"
proof -
  have "mset xs = mset (take n xs) + mset (drop n xs)"
    by (simp only: mset_append [symmetric] append_take_drop_id)
  then show ?thesis by simp
qed

lemma most_recent_take:
  assumes "descending ms"
  shows "mset (take n ms) + mset (drop n ms) = mset ms \<and>
         (\<forall>a \<in> set (take n ms). \<forall>b \<in> set (drop n ms). timestamp b \<le> timestamp a)"
proof -
  have "sorted_wrt (\<lambda>a b. timestamp b \<le> timestamp a) (take n ms @ drop n ms)"
    using assms by (simp add: descending_def)
  then have "\<forall>a \<in> set (take n ms). \<forall>b \<in> set (drop n ms). timestamp b \<le> timestamp a"
    unfolding sorted_wrt_append by blast
  moreover have "mset (take n ms) + mset (drop n ms) = mset ms"
    by (simp only: mset_append [symmetric] append_take_drop_id)
  ultimately show ?thesis by simp
qed

text \<open>
  C6. For every conversation and every limit \<open>k\<close>, a number of messages (\<open>k \<ge> 0\<close>),
  \<open>get_latest_messages\<close> returns at most \<open>k\<close> messages, sorted in descending order of
  timestamp, each of them a message of the conversation (and at most as often as it
  occurs there); they are \<open>min k n\<close> of the \<open>n\<close> messages and the most recent ones: every
  message left out has a timestamp no later than that of every message returned. The
  order and the membership hold for every integer limit.
\<close>

theorem get_latest_messages_most_recent:
  "descending (fst (get_latest_messages self limit)) \<and>
   mset (fst (get_latest_messages self limit)) \<subseteq># mset (messages self) \<and>
   set (fst (get_latest_messages self limit)) \<subseteq> set (messages self) \<and>
   (0 \<le> limit \<longrightarrow>
      int (length (fst (get_latest_messages self limit))) \<le> limit \<and>
      length (fst (get_latest_messages self limit)) = min (nat limit) (length (messages self)) \<and>
      (\<exists>rest. mset (fst (get_latest_messages self limit)) + mset rest = mset (messages self) \<and>
         (\<forall>a \<in> set (fst (get_latest_messages self limit)). \<forall>b \<in> set rest.
            timestamp b \<le> timestamp a)))"
proof -
  let ?S = "sorted_py (messages self) timestamp True"
  obtain n where n: "fst (get_latest_messages self limit) = take n ?S"
    using slice_to_take [of ?S limit] by (auto simp: get_latest_messages_def)
  have d: "descending ?S" by (rule descending_sorted_py)
  have m: "mset ?S = mset (messages self)" by (rule mset_sorted_py)
  have 1: "descending (fst (get_latest_messages self limit))"
    using d n by (simp add: descending_take)
  have 2: "mset (fst (get_latest_messages self limit)) \<subseteq># mset (messages self)"
    using mset_take_subset [of n ?S] n m by simp
  have 3: "set (fst (get_latest_messages self limit)) \<subseteq> set (messages self)"
    using n m by (metis set_mset_mset set_take_subset)
  have 4: "0 \<le> limit \<longrightarrow>
      int (length (fst (get_latest_messages self limit))) \<le> limit \<and>
      length (fst (get_latest_messages self limit)) = min (nat limit) (length (messages self)) \<and>
      (\<exists>rest. mset (fst (get_latest_messages self limit)) + mset rest = mset (messages self) \<and>
         (\<forall>a \<in> set (fst (get_latest_messages self limit)). \<forall>b \<in> set rest.
            timestamp b \<le> timestamp a))"
  proof
    assume k: "0 \<le> limit"
    then have r: "fst (get_latest_messages self limit) = take (nat limit) ?S"
      by (simp add: get_latest_messages_def slice_to_def)
    have len: "length ?S = length (messages self)"
      using m by (metis size_mset)
    have a: "int (length (fst (get_latest_messages self limit))) \<le> limit"
      using k r by simp
    have b: "length (fst (get_latest_messages self limit)) = min (nat limit) (length (messages self))"
      using r len by simp
    have c: "mset (fst (get_latest_messages self limit)) + mset (drop (nat limit) ?S) =
               mset (messages self) \<and>
             (\<forall>a \<in> set (fst (get_latest_messages self limit)). \<forall>b \<in> set (drop (nat limit) ?S).
                timestamp b \<le> timestamp a)"
      using most_recent_take [OF d, of "nat limit"] r m by simp
    from a b c show "int (length (fst (get_latest_messages self limit))) \<le> limit \<and>
      length (fst (get_latest_messages self limit)) = min (nat limit) (length (messages self)) \<and>
      (\<exists>rest. mset (fst (get_latest_messages self limit)) + mset rest = mset (messages self) \<and>
         (\<forall>a \<in> set (fst (get_latest_messages self limit)). \<forall>b \<in> set rest.
            timestamp b \<le> timestamp a))"
      by blast
  qed
  from 1 2 3 4 show ?thesis by blast
qed

theorem get_latest_messages_most_recent_witness:
  "(0::int) \<le> 2 \<and>
   fst (get_latest_messages (add_message_calls (Conversation_init [84] 1 7 100 100)
     [(Message_init [65] 1 USER 7 3 150, 200), (Message_init [66] 2 AI 7 4 250, 300),
      (Message_init [67] 2 AI 7 5 150, 300)]) 2) =
     [Message_init [66] 2 AI 7 4 250, Message_init [65] 1 USER 7 3 150] \<and>
   int (length (fst (get_latest_messages (add_message_calls (Conversation_init [84] 1 7 100 100)
     [(Message_init [65] 1 USER 7 3 150, 200), (Message_init [66] 2 AI 7 4 250, 300),
      (Message_init [67] 2 AI 7 5 150, 300)]) 2))) \<le> 2 \<and>
   descending (fst (get_latest_messages (add_message_calls (Conversation_init [84] 1 7 100 100)
     [(Message_init [65] 1 USER 7 3 150, 200), (Message_init [66] 2 AI 7 4 250, 300),
      (Message_init [67] 2 AI 7 5 150, 300)]) 2))"
proof -
  let ?c = "add_message_calls (Conversation_init [84] 1 7 100 100)
     [(Message_init [65] 1 USER 7 3 150, 200), (Message_init [66] 2 AI 7 4 250, 300),
      (Message_init [67] 2 AI 7 5 150, 300)]"
  have h: "(0::int) \<le> 2" by simp
  have e: "fst (get_latest_messages ?c 2) =
     [Message_init [66] 2 AI 7 4 250, Message_init [65] 1 USER 7 3 150]"
    by (simp add: get_latest_messages_def slice_to_def sorted_py_def add_message_def
          Conversation_init_def Message_init_def)
  from get_latest_messages_most_recent [of ?c 2] h
  have "int (length (fst (get_latest_messages ?c 2))) \<le> 2 \<and>
        descending (fst (get_latest_messages ?c 2))"
    by blast
  with h e show ?thesis by simp
qed

text \<open>
  C9. \<open>get_latest_messages\<close> breaks ties by insertion order: for every timestamp \<open>t\<close>, the
  returned messages with timestamp \<open>t\<close> are the first ones of the messages with timestamp
  \<open>t\<close> in the conversation, in the order they have there; and a second call on the
  conversation as the first call left it returns the same list.
\<close>

theorem get_latest_messages_stable:
  "prefix (filter (\<lambda>m. timestamp m = t) (fst (get_latest_messages self limit)))
          (filter (\<lambda>m. timestamp m = t) (messages self)) \<and>
   fst (get_latest_messages (snd (get_latest_messages self limit)) limit) =
     fst (get_latest_messages self limit)"
proof -
  let ?S = "sorted_py (messages self) timestamp True"
  obtain n where n: "fst (get_latest_messages self limit) = take n ?S"
    using slice_to_take [of ?S limit] by (auto simp: get_latest_messages_def)
  have "prefix (filter (\<lambda>m. timestamp m = t) (take n ?S)) (filter (\<lambda>m. timestamp m = t) ?S)"
    by (rule prefix_filter_take)
  then have "prefix (filter (\<lambda>m. timestamp m = t) (fst (get_latest_messages self limit)))
          (filter (\<lambda>m. timestamp m = t) (messages self))"
    using n by (simp only: filter_sorted_py)
  moreover have "fst (get_latest_messages (snd (get_latest_messages self limit)) limit) =
     fst (get_latest_messages self limit)"
    by (simp add: get_latest_messages_def)
  ultimately show ?thesis by simp
qed

theorem get_latest_messages_stable_witness:
  "fst (get_latest_messages (add_message_calls (Conversation_init [84] 1 7 100 100)
     [(Message_init [65] 1 USER 7 3 150, 200), (Message_init [66] 2 AI 7 4 150, 300),
      (Message_init [67] 2 AI 7 5 150, 400)]) 2) =
     [Message_init [65] 1 USER 7 3 150, Message_init [66] 2 AI 7 4 150] \<and>
   prefix (filter (\<lambda>m. timestamp m = 150)
     (fst (get_latest_messages (add_message_calls (Conversation_init [84] 1 7 100 100)
     [(Message_init [65] 1 USER 7 3 150, 200), (Message_init [66] 2 AI 7 4 150, 300),
      (Message_init [67] 2 AI 7 5 150, 400)]) 2)))
     (filter (\<lambda>m. timestamp m = 150) (messages (add_message_calls (Conversation_init [84] 1 7 100 100)
     [(Message_init [65] 1 USER 7 3 150, 200), (Message_init [66] 2 AI 7 4 150, 300),
      (Message_init [67] 2 AI 7 5 150, 400)])))"
proof -
  let ?c = "add_message_calls (Conversation_init [84] 1 7 100 100)
     [(Message_init [65] 1 USER 7 3 150, 200), (Message_init [66] 2 AI 7 4 150, 300),
      (Message_init [67] 2 AI 7 5 150, 400)]"
  have e: "fst (get_latest_messages ?c 2) =
     [Message_init [65] 1 USER 7 3 150, Message_init [66] 2 AI 7 4 150]"
    by (simp add: get_latest_messages_def slice_to_def sorted_py_def add_message_def
          Conversation_init_def Message_init_def)
  from get_latest_messages_stable [of 150 ?c 2]
  have "prefix (filter (\<lambda>m. timestamp m = 150) (fst (get_latest_messages ?c 2)))
          (filter (\<lambda>m. timestamp m = 150) (messages ?c))"
    by blast
  with e show ?thesis by simp
qed

text \<open>
  C10. \<open>get_latest_messages\<close> does not change the conversation: after the call the
  messages and their order, \<open>updated_at\<close>, \<open>title\<close>, \<open>is_archived\<close> and every other field
  are as before the call.
\<close>

theorem get_latest_messages_frame:
  "snd (get_latest_messages self limit) = self \<and>
   messages (snd (get_latest_messages self limit)) = messages self \<and>
   updated_at (snd (get_latest_messages self limit)) = updated_at self \<and>
   title (snd (get_latest_messages self limit)) = title self \<and>
   is_archived (snd (get_latest_messages self limit)) = is_archived self"
  by (simp add: get_latest_messages_def)

end
